theory Spec2Isabelle
  imports Main "HOL-Library.Char_ord" "HOL-Library.List_Lexorder"
begin

section \<open>JSON documents and byte strings\<close>

text \<open>
  The bridge (package \<^verbatim>\<open>mcp\<close>: \<^verbatim>\<open>pkg/mcp/api_client.go\<close>, \<^verbatim>\<open>pkg/mcp/server.go\<close> and the
  constants file with \<^verbatim>\<open>DetectMime\<close>) moves JSON between an MCP client and a remote HTTP API.
  A JSON document is modelled by the value it spells: insignificant white space and string
  escapes are abstracted, the members of an object are kept in document order (repeated
  names included), and a number is kept as its literal text.  A byte string that the code
  handles as \<^verbatim>\<open>json.RawMessage\<close> or as an HTTP body is either the text of a JSON document or
  some bytes that are not valid JSON; the nil (empty) message is \<open>NotJson []\<close>.
  A \<open>string\<close> is a sequence of bytes (UTF-8), as a Go string is.

  The file \<^verbatim>\<open>api_client.go\<close> holds two versions of the client.  The model follows the first,
  the one with upload-capable tools, which is the one \<^verbatim>\<open>server.go\<close> is written against; the
  second has a single endpoint for each tool and handles a response in the same way.
\<close>

datatype json =
    JNull
  | JBool bool
  | JNumber string
  | JString string
  | JArray "json list"
  | JObject "(string \<times> json) list"

datatype raw = Doc json | NotJson string

definition nil_raw :: raw where
  "nil_raw = NotJson []"

section \<open>Decoding with encoding/json\<close>

text \<open>
  \<^verbatim>\<open>json.Unmarshal\<close> first checks the syntax of the whole input and then decodes the value
  into the target.  A JSON value of the wrong kind for its target is an
  \<^verbatim>\<open>UnmarshalTypeError\<close>; decoding goes on after it, but \<^verbatim>\<open>Unmarshal\<close> returns the first such
  error and every caller here drops the target then, so the model stops at the first error.
  JSON \<^verbatim>\<open>null\<close> leaves a bool, string, int or struct target as it is, sets a pointer, map or
  slice to nil, and is handed to \<^verbatim>\<open>RawMessage.UnmarshalJSON\<close> like any other value.
\<close>

datatype json_error = SyntaxError | UnmarshalTypeError

fun foldM :: "('s \<Rightarrow> 'a \<Rightarrow> 'e + 's) \<Rightarrow> 's \<Rightarrow> 'a list \<Rightarrow> 'e + 's" where
  "foldM f s [] = Inr s"
| "foldM f s (x # xs) = (case f s x of Inl e \<Rightarrow> Inl e | Inr s' \<Rightarrow> foldM f s' xs)"

definition upper :: "char \<Rightarrow> char" where
  "upper c = (if CHR ''a'' \<le> c \<and> c \<le> CHR ''z'' then char_of (of_char c - (32 :: nat)) else c)"

text \<open>
  A member name selects the struct field whose name it equals up to case: the library folds
  ASCII letters to upper case and every other rune to the least rune of its simple case
  folding, which maps exactly U+017F (bytes C5 BF) to S and U+212A (bytes E2 84 AA) to K
  among the runes that fold to an ASCII letter.  No two fields of a struct decoded here
  have the same folded name, so the preference for an exact match changes nothing.
\<close>

fun foldName :: "string \<Rightarrow> string" where
  "foldName (c # d # e # cs) =
     (if c = CHR 0xE2 \<and> d = CHR 0x84 \<and> e = CHR 0xAA then CHR ''K'' # foldName cs
      else if c = CHR 0xC5 \<and> d = CHR 0xBF then CHR ''S'' # foldName (e # cs)
      else upper c # foldName (d # e # cs))"
| "foldName [c, d] =
     (if c = CHR 0xC5 \<and> d = CHR 0xBF then [CHR ''S''] else upper c # foldName [d])"
| "foldName [c] = [upper c]"
| "foldName [] = []"

definition names :: "string \<Rightarrow> string \<Rightarrow> bool" where
  "names key field = (foldName key = foldName field)"

definition bool_value :: "json \<Rightarrow> bool \<Rightarrow> json_error + bool" where
  "bool_value v cur =
     (case v of JNull \<Rightarrow> Inr cur | JBool b \<Rightarrow> Inr b | _ \<Rightarrow> Inl UnmarshalTypeError)"

definition string_value :: "json \<Rightarrow> string \<Rightarrow> json_error + string" where
  "string_value v cur =
     (case v of JNull \<Rightarrow> Inr cur | JString s \<Rightarrow> Inr s | _ \<Rightarrow> Inl UnmarshalTypeError)"

definition string_ptr_value :: "json \<Rightarrow> string option \<Rightarrow> json_error + string option" where
  "string_ptr_value v cur =
     (case v of JNull \<Rightarrow> Inr None | JString s \<Rightarrow> Inr (Some s) | _ \<Rightarrow> Inl UnmarshalTypeError)"

definition raw_value :: "json \<Rightarrow> raw \<Rightarrow> json_error + raw" where
  "raw_value v cur = Inr (Doc v)"

definition is_digit :: "char \<Rightarrow> bool" where
  "is_digit c = (CHR ''0'' \<le> c \<and> c \<le> CHR ''9'')"

definition digit_val :: "char \<Rightarrow> int" where
  "digit_val c = int (of_char c) - 48"

text \<open>\<^verbatim>\<open>strconv.ParseInt(s, 10, 64)\<close> on the literal of a JSON number (Go's \<^verbatim>\<open>int\<close> has 64 bits).\<close>

definition ParseInt :: "string \<Rightarrow> int option" where
  "ParseInt s =
     (let neg = (take 1 s = ''-'');
          ds = (if neg then drop 1 s else s);
          n = foldl (\<lambda>a c. 10 * a + digit_val c) 0 ds;
          v = (if neg then - n else n)
      in if ds \<noteq> [] \<and> list_all is_digit ds \<and> - (2 ^ 63) \<le> v \<and> v < 2 ^ 63
         then Some v else None)"

definition int_value :: "json \<Rightarrow> int \<Rightarrow> json_error + int" where
  "int_value v cur =
     (case v of
        JNull \<Rightarrow> Inr cur
      | JNumber lit \<Rightarrow> (case ParseInt lit of Some i \<Rightarrow> Inr i | None \<Rightarrow> Inl UnmarshalTypeError)
      | _ \<Rightarrow> Inl UnmarshalTypeError)"

text \<open>A struct target: members are decoded in document order, each into the struct built
  so far; a member that names no field is skipped.\<close>

definition struct_value ::
  "('s \<Rightarrow> string \<times> json \<Rightarrow> json_error + 's) \<Rightarrow> json \<Rightarrow> 's \<Rightarrow> json_error + 's" where
  "struct_value field v cur =
     (case v of
        JNull \<Rightarrow> Inr cur
      | JObject members \<Rightarrow> foldM field cur members
      | _ \<Rightarrow> Inl UnmarshalTypeError)"

definition Unmarshal :: "(json \<Rightarrow> 'a \<Rightarrow> json_error + 'a) \<Rightarrow> raw \<Rightarrow> 'a \<Rightarrow> json_error + 'a" where
  "Unmarshal decode data target =
     (case data of NotJson _ \<Rightarrow> Inl SyntaxError | Doc v \<Rightarrow> decode v target)"

subsection \<open>Decoding into \<^verbatim>\<open>interface{}\<close> and \<^verbatim>\<open>map[string]interface{}\<close>\<close>

text \<open>
  A Go map with string keys is represented by its entries in ascending key order, the order
  in which \<^verbatim>\<open>json.Marshal\<close> writes them; the keys of the list are distinct.  A value of type
  \<^verbatim>\<open>interface{}\<close> produced by the decoder is represented by a \<open>json\<close> value all of whose
  objects are such maps.  The conversion of number literals to \<^verbatim>\<open>float64\<close> and back is not
  modelled: a number keeps its literal.
\<close>

type_synonym gomap = "(string \<times> json) list"

definition map_store :: "string \<Rightarrow> json \<Rightarrow> gomap \<Rightarrow> gomap" where
  "map_store k v m = insort_key fst (k, v) (filter (\<lambda>e. fst e \<noteq> k) m)"

definition map_index :: "gomap \<Rightarrow> string \<Rightarrow> json option" where
  "map_index m k = map_of m k"

definition map_entries :: "gomap \<Rightarrow> (string \<times> json) list \<Rightarrow> gomap" where
  "map_entries m es = foldl (\<lambda>m e. map_store (fst e) (snd e) m) m es"

fun interface_value :: "json \<Rightarrow> json" where
  "interface_value (JObject members) =
     JObject (map_entries [] (map (\<lambda>e. (fst e, interface_value (snd e))) members))"
| "interface_value (JArray vs) = JArray (map interface_value vs)"
| "interface_value v = v"

text \<open>The target \<^verbatim>\<open>map[string]interface{}\<close>; \<open>None\<close> is the nil map.\<close>

definition map_value :: "json \<Rightarrow> gomap option \<Rightarrow> json_error + gomap option" where
  "map_value v cur =
     (case v of
        JNull \<Rightarrow> Inr None
      | JObject members \<Rightarrow>
          Inr (Some (map_entries (case cur of None \<Rightarrow> [] | Some m \<Rightarrow> m)
                       (map (\<lambda>e. (fst e, interface_value (snd e))) members)))
      | _ \<Rightarrow> Inl UnmarshalTypeError)"

definition any_value :: "json \<Rightarrow> json \<Rightarrow> json_error + json" where
  "any_value v cur = Inr (interface_value v)"


section \<open>Data of the API client\<close>

record ToolInvokeEndpoints =
  Json :: string
  Form :: string

record Tool =
  Name :: string
  Description :: string
  InputSchema :: raw
  AllowUploadFiles :: bool
  InvokeEndpoints :: ToolInvokeEndpoints

record ToolsetManifest =
  Namespace :: string
  Name :: string
  Generation :: int
  Tools :: "Tool list"

text \<open>The \<^verbatim>\<open>http.Client\<close> of an \<^verbatim>\<open>APIClient\<close> (timeout 30 s) is the \<open>Do\<close> of the world below.\<close>

record APIClient =
  baseURL :: string
  apiKey :: string

definition NewAPIClient :: "string \<Rightarrow> string \<Rightarrow> APIClient" where
  "NewAPIClient url key = \<lparr>baseURL = url, apiKey = key\<rparr>"

definition UploadedFilePathsFieldName :: string where
  "UploadedFilePathsFieldName = ''_uploaded_file_paths''"

definition FormDataKeyFile :: string where
  "FormDataKeyFile = ''file''"

text \<open>Modelled from the spec: the constant \<^verbatim>\<open>FormDataKeyJson\<close> that \<^verbatim>\<open>ExecuteToolRequest\<close> uses
  is not declared in the sources at hand (the constants file declares \<^verbatim>\<open>FormDataKeyJSON = "json"\<close>);
  the spec names the JSON field of the multipart body \<^verbatim>\<open>json\<close>.\<close>

definition FormDataKeyJson :: string where
  "FormDataKeyJson = ''json''"

definition UploadedFilePathsSchema :: json where
  "UploadedFilePathsSchema =
     JObject (map_entries []
       [(''type'', JString ''array''),
        (''description'', JString ''List of file paths to be uploaded''),
        (''items'', JObject (map_entries []
           [(''type'', JString ''string''),
            (''description'', JString ''Path to the uploaded file'')]))])"

section \<open>The world outside the program\<close>

text \<open>
  A path of the file system leads to nothing that can be opened (\<open>None\<close>), to a regular file
  with its bytes, or to something that can be opened but not read (a directory).
  An HTTP exchange either fails (connection, timeout) or gives a status code and a body,
  whose reading can fail as well.  The rest of the world is what the libraries decide and
  the program does not: the content sniffing of \<^verbatim>\<open>http.DetectContentType\<close>, the rendering by
  \<^verbatim>\<open>fmt\<close> of a value that is not a string, the random boundary of a multipart writer, and
  which URLs \<^verbatim>\<open>http.NewRequest\<close> accepts.
\<close>

datatype File = Regular string | Unreadable

datatype payload = Text raw | Bytes string

record part =
  Header :: "(string \<times> string) list"
  Content :: payload

datatype body = NoBody | RawBody raw | Multipart string "part list"

record request =
  Method :: string
  URL :: string
  Header :: "(string \<times> string) list"
  Body :: body

record response =
  StatusCode :: int
  Body :: "string + raw"

record world =
  fs :: "string \<Rightarrow> File option"
  DetectContentType :: "string \<Rightarrow> string"
  Sprint :: "json \<Rightarrow> string"
  boundary :: string
  valid_url :: "string \<Rightarrow> bool"
  Do :: "request \<Rightarrow> string + response"

text \<open>What a call does to the world, in order: file handles opened and closed, requests sent.\<close>

datatype event = Opened string | Closed string | Sent request

fun requests_sent :: "event list \<Rightarrow> request list" where
  "requests_sent [] = []"
| "requests_sent (Sent req # evs) = req # requests_sent evs"
| "requests_sent (_ # evs) = requests_sent evs"

datatype os_error = EOF | ReadError

datatype error =
    NoInvokeEndpoint string
  | ParseUploadedFilePathsFailed json_error
  | OpenFileFailed string
  | ReadFileFailed os_error
  | DetectMimeFailed string error
  | CopyFileFailed os_error
  | CreateRequestFailed
  | ExecuteRequestFailed string
  | ReadBodyFailed string
  | UnexpectedStatus int raw
  | UnmarshalResponseFailed json_error
  | APIError string
  | FetchManifestFailed error
  | ParseInputSchemaFailed string json_error
  | MarshalInputSchemaFailed string
  | RegisterToolHandlersFailed error

section \<open>DetectMime\<close>

text \<open>\<^verbatim>\<open>file.Read(buffer)\<close> on a fresh handle: the bytes read overwrite the front of the buffer;
  at the end of the file nothing is read and the error is \<^verbatim>\<open>io.EOF\<close>.\<close>

definition file_Read :: "File \<Rightarrow> string \<Rightarrow> os_error + nat \<times> string" where
  "file_Read f buffer =
     (case f of
        Unreadable \<Rightarrow> Inl ReadError
      | Regular bytes \<Rightarrow>
          if bytes = [] then Inl EOF
          else (let n = min (length buffer) (length bytes)
                in Inr (n, take n bytes @ drop n buffer)))"

definition DetectMime :: "world \<Rightarrow> string \<Rightarrow> event list \<times> (error + string)" where
  "DetectMime w filePath =
     (case fs w filePath of
        None \<Rightarrow> ([], Inl (OpenFileFailed filePath))
      | Some file \<Rightarrow>
          (case file_Read file (replicate 512 (CHR 0x00)) of
             Inl err \<Rightarrow> ([Opened filePath, Closed filePath], Inl (ReadFileFailed err))
           | Inr (_, buffer) \<Rightarrow>
               ([Opened filePath, Closed filePath], Inr (DetectContentType w buffer))))"

section \<open>ExecuteToolRequest\<close>

subsection \<open>The multipart body\<close>

definition is_separator :: "char \<Rightarrow> bool" where
  "is_separator c = (c = CHR ''/'')"

text \<open>\<^verbatim>\<open>filepath.Base\<close> (Unix): the last element of the path, trailing separators dropped.\<close>

definition Base :: "string \<Rightarrow> string" where
  "Base path =
     (if path = [] then ''.''
      else (let stripped = rev (dropWhile is_separator (rev path));
                last_element = rev (takeWhile (\<lambda>c. \<not> is_separator c) (rev stripped))
            in if last_element = [] then ''/'' else last_element))"

text \<open>\<^verbatim>\<open>strings.NewReplacer("\\", "\\\\", `"`, "\\\"")\<close>: a backslash before every backslash and
  every double quote.\<close>

definition quoteEscaper :: "string \<Rightarrow> string" where
  "quoteEscaper s =
     concat (map (\<lambda>c. if c = CHR 0x5C \<or> c = CHR 0x22 then [CHR 0x5C, c] else [c]) s)"

definition quoted :: "string \<Rightarrow> string" where
  "quoted s = [CHR 0x22] @ s @ [CHR 0x22]"

text \<open>\<^verbatim>\<open>mw.WriteField(fieldname, value)\<close>: a part with only a content disposition.  The writer
  writes into a \<^verbatim>\<open>bytes.Buffer\<close>, so neither it nor \<^verbatim>\<open>mw.CreatePart\<close> can fail.\<close>

definition WriteField :: "string \<Rightarrow> raw \<Rightarrow> part" where
  "WriteField fieldname v =
     \<lparr>part.Header =
        [(''Content-Disposition'', ''form-data; name='' @ quoted (quoteEscaper fieldname))],
      Content = Text v\<rparr>"

definition file_part :: "string \<Rightarrow> string \<Rightarrow> string \<Rightarrow> part" where
  "file_part fp mimeType bytes =
     \<lparr>part.Header =
        [(''Content-Disposition'',
            ''form-data; name='' @ quoted FormDataKeyFile @
            ''; filename='' @ quoted (quoteEscaper (Base fp))),
         (''Content-Type'', mimeType)],
      Content = Bytes bytes\<rparr>"

text \<open>\<^verbatim>\<open>fmt.Sprintf("%v", fpIntf)\<close>: a string is rendered as it is.\<close>

definition Sprintf_v :: "world \<Rightarrow> json \<Rightarrow> string" where
  "Sprintf_v w v = (case v of JString s \<Rightarrow> s | _ \<Rightarrow> Sprint w v)"

text \<open>\<^verbatim>\<open>io.Copy(part, f)\<close> reads the handle opened by \<^verbatim>\<open>os.Open\<close> to its end.\<close>

definition io_Copy :: "File \<Rightarrow> os_error + string" where
  "io_Copy f = (case f of Regular bytes \<Rightarrow> Inr bytes | Unreadable \<Rightarrow> Inl ReadError)"

text \<open>The loop over the file paths.  It gives the events of the loop, the handles whose
  \<^verbatim>\<open>Close\<close> is deferred to the return of \<^verbatim>\<open>ExecuteToolRequest\<close>, and the file parts written,
  or the error of the first path that fails.\<close>

fun attach_files :: "world \<Rightarrow> json list \<Rightarrow> event list \<times> string list \<times> (error + part list)" where
  "attach_files w [] = ([], [], Inr [])"
| "attach_files w (fpIntf # rest) =
     (let fp = Sprintf_v w fpIntf in
      case fs w fp of
        None \<Rightarrow> ([], [], Inl (OpenFileFailed fp))
      | Some f \<Rightarrow>
          (case DetectMime w fp of
             (evs, Inl err) \<Rightarrow> (Opened fp # evs, [fp], Inl (DetectMimeFailed fp err))
           | (evs, Inr mimeType) \<Rightarrow>
               (case io_Copy f of
                  Inl err \<Rightarrow> (Opened fp # evs, [fp], Inl (CopyFileFailed err))
                | Inr bytes \<Rightarrow>
                    (case attach_files w rest of
                       (evs', opened, r) \<Rightarrow>
                         (Opened fp # evs @ evs', fp # opened,
                          case r of
                            Inl err \<Rightarrow> Inl err
                          | Inr parts \<Rightarrow> Inr (file_part fp mimeType bytes # parts))))))"

text \<open>\<^verbatim>\<open>inputData[UploadedFilePathsFieldName].([]interface{})\<close>: without such a list, no file.\<close>

definition file_paths :: "gomap option \<Rightarrow> json list" where
  "file_paths inputData =
     (case inputData of
        None \<Rightarrow> []
      | Some m \<Rightarrow>
          (case map_index m UploadedFilePathsFieldName of
             Some (JArray filePathsIntf) \<Rightarrow> filePathsIntf
           | _ \<Rightarrow> []))"

definition multipart_body ::
  "world \<Rightarrow> raw \<Rightarrow> event list \<times> string list \<times> (error + body \<times> string)" where
  "multipart_body w input =
     (case Unmarshal map_value input (Some []) of
        Inl err \<Rightarrow> ([], [], Inl (ParseUploadedFilePathsFailed err))
      | Inr inputData \<Rightarrow>
          (case attach_files w (file_paths inputData) of
             (evs, opened, r) \<Rightarrow>
               (evs, opened,
                case r of
                  Inl err \<Rightarrow> Inl err
                | Inr parts \<Rightarrow>
                    Inr (Multipart (boundary w) (WriteField FormDataKeyJson input # parts),
                         ''multipart/form-data; boundary='' @ boundary w))))"

subsection \<open>The response\<close>

record asgardResponse =
  IsSuccess :: bool
  Data :: raw
  Error :: "string option"
  ErrorCode :: "string option"

definition asgardResponse_zero :: asgardResponse where
  "asgardResponse_zero = \<lparr>IsSuccess = False, Data = nil_raw, Error = None, ErrorCode = None\<rparr>"

definition asgardResponse_field ::
  "asgardResponse \<Rightarrow> string \<times> json \<Rightarrow> json_error + asgardResponse" where
  "asgardResponse_field r m =
     (if names (fst m) ''isSuccess'' then
        map_sum id (\<lambda>x. r\<lparr>IsSuccess := x\<rparr>) (bool_value (snd m) (IsSuccess r))
      else if names (fst m) ''data'' then
        map_sum id (\<lambda>x. r\<lparr>Data := x\<rparr>) (raw_value (snd m) (Data r))
      else if names (fst m) ''error'' then
        map_sum id (\<lambda>x. r\<lparr>Error := x\<rparr>) (string_ptr_value (snd m) (Error r))
      else if names (fst m) ''errorCode'' then
        map_sum id (\<lambda>x. r\<lparr>ErrorCode := x\<rparr>) (string_ptr_value (snd m) (ErrorCode r))
      else Inr r)"

definition asgardResponse_value :: "json \<Rightarrow> asgardResponse \<Rightarrow> json_error + asgardResponse" where
  "asgardResponse_value = struct_value asgardResponse_field"

text \<open>From \<^verbatim>\<open>io.ReadAll(resp.Body)\<close> to the end of \<^verbatim>\<open>ExecuteToolRequest\<close>.\<close>

definition read_response :: "response \<Rightarrow> error + raw" where
  "read_response resp =
     (case response.Body resp of
        Inl err \<Rightarrow> Inl (ReadBodyFailed err)
      | Inr respBytes \<Rightarrow>
          if StatusCode resp \<noteq> 200 then Inl (UnexpectedStatus (StatusCode resp) respBytes)
          else (case Unmarshal asgardResponse_value respBytes asgardResponse_zero of
                  Inl err \<Rightarrow> Inr respBytes
                | Inr r \<Rightarrow>
                    if \<not> IsSuccess r then
                      Inl (APIError (case Error r of None \<Rightarrow> ''unknown error'' | Some errMsg \<Rightarrow> errMsg))
                    else if Data r \<noteq> nil_raw then Inr (Data r)
                    else Inr respBytes))"

subsection \<open>The request\<close>

definition endpoint_of :: "Tool \<Rightarrow> string" where
  "endpoint_of tool =
     (if AllowUploadFiles tool then Form (InvokeEndpoints tool) else Json (InvokeEndpoints tool))"

definition prepare_body :: "world \<Rightarrow> Tool \<Rightarrow> raw \<Rightarrow> event list \<times> string list \<times> (error + body \<times> string)" where
  "prepare_body w tool input =
     (if AllowUploadFiles tool then multipart_body w input
      else ([], [], Inr (RawBody input, ''application/json'')))"

definition post_request :: "APIClient \<Rightarrow> string \<Rightarrow> body \<Rightarrow> string \<Rightarrow> request" where
  "post_request c endpoint b contentType =
     \<lparr>Method = ''POST'', URL = endpoint,
      request.Header =
        [(''Content-Type'', contentType), (''Accept'', ''application/json''), (''X-API-KEY'', apiKey c)],
      request.Body = b\<rparr>"

definition ExecuteToolRequest ::
  "world \<Rightarrow> APIClient \<Rightarrow> Tool \<Rightarrow> raw \<Rightarrow> event list \<times> (error + raw)" where
  "ExecuteToolRequest w c tool input =
     (let endpoint = endpoint_of tool in
      if endpoint = [] then ([], Inl (NoInvokeEndpoint (Tool.Name tool)))
      else
        (case prepare_body w tool input of
           (evs, opened, Inl err) \<Rightarrow> (evs @ map Closed (rev opened), Inl err)
         | (evs, opened, Inr (b, contentType)) \<Rightarrow>
             if \<not> valid_url w endpoint then (evs @ map Closed (rev opened), Inl CreateRequestFailed)
             else
               (let req = post_request c endpoint b contentType in
                (evs @ [Sent req] @ map Closed (rev opened),
                 case Do w req of
                   Inl err \<Rightarrow> Inl (ExecuteRequestFailed err)
                 | Inr resp \<Rightarrow> read_response resp))))"

section \<open>FetchToolsetManifest\<close>

definition ToolInvokeEndpoints_zero :: ToolInvokeEndpoints where
  "ToolInvokeEndpoints_zero = \<lparr>Json = [], Form = []\<rparr>"

definition ToolInvokeEndpoints_field ::
  "ToolInvokeEndpoints \<Rightarrow> string \<times> json \<Rightarrow> json_error + ToolInvokeEndpoints" where
  "ToolInvokeEndpoints_field r m =
     (if names (fst m) ''json'' then
        map_sum id (\<lambda>x. r\<lparr>Json := x\<rparr>) (string_value (snd m) (Json r))
      else if names (fst m) ''form'' then
        map_sum id (\<lambda>x. r\<lparr>Form := x\<rparr>) (string_value (snd m) (Form r))
      else Inr r)"

definition Tool_zero :: Tool where
  "Tool_zero =
     \<lparr>Tool.Name = [], Description = [], InputSchema = nil_raw, AllowUploadFiles = False,
      InvokeEndpoints = ToolInvokeEndpoints_zero\<rparr>"

definition Tool_field :: "Tool \<Rightarrow> string \<times> json \<Rightarrow> json_error + Tool" where
  "Tool_field r m =
     (if names (fst m) ''name'' then
        map_sum id (\<lambda>x. r\<lparr>Tool.Name := x\<rparr>) (string_value (snd m) (Tool.Name r))
      else if names (fst m) ''description'' then
        map_sum id (\<lambda>x. r\<lparr>Description := x\<rparr>) (string_value (snd m) (Description r))
      else if names (fst m) ''input_schema'' then
        map_sum id (\<lambda>x. r\<lparr>InputSchema := x\<rparr>) (raw_value (snd m) (InputSchema r))
      else if names (fst m) ''allow_upload_files'' then
        map_sum id (\<lambda>x. r\<lparr>AllowUploadFiles := x\<rparr>) (bool_value (snd m) (AllowUploadFiles r))
      else if names (fst m) ''invoke_endpoints'' then
        map_sum id (\<lambda>x. r\<lparr>InvokeEndpoints := x\<rparr>)
          (struct_value ToolInvokeEndpoints_field (snd m) (InvokeEndpoints r))
      else Inr r)"

text \<open>A slice target: the element at an index is decoded into the element that the slice
  holds there, and into a zero element beyond the length of the slice.  (The library keeps
  the backing array, so what it finds beyond the length differs from zero once the same
  member has been decoded three times; no more is modelled of that.)\<close>

fun elements_value ::
  "(json \<Rightarrow> 'a \<Rightarrow> json_error + 'a) \<Rightarrow> 'a \<Rightarrow> json list \<Rightarrow> 'a list \<Rightarrow> json_error + 'a list" where
  "elements_value decode zero [] cur = Inr []"
| "elements_value decode zero (v # vs) cur =
     (case decode v (case cur of [] \<Rightarrow> zero | x # _ \<Rightarrow> x) of
        Inl err \<Rightarrow> Inl err
      | Inr x \<Rightarrow>
          (case elements_value decode zero vs (tl cur) of
             Inl err \<Rightarrow> Inl err
           | Inr xs \<Rightarrow> Inr (x # xs)))"

definition slice_value ::
  "(json \<Rightarrow> 'a \<Rightarrow> json_error + 'a) \<Rightarrow> 'a \<Rightarrow> json \<Rightarrow> 'a list \<Rightarrow> json_error + 'a list" where
  "slice_value decode zero v cur =
     (case v of
        JNull \<Rightarrow> Inr []
      | JArray vs \<Rightarrow> elements_value decode zero vs cur
      | _ \<Rightarrow> Inl UnmarshalTypeError)"

text \<open>The anonymous struct of \<^verbatim>\<open>response.Data\<close> has the fields of \<^verbatim>\<open>ToolsetManifest\<close>, and its
  tool records have the fields of \<^verbatim>\<open>Tool\<close>; the records of these types stand for them.\<close>

definition ToolsetManifest_zero :: ToolsetManifest where
  "ToolsetManifest_zero = \<lparr>Namespace = [], ToolsetManifest.Name = [], Generation = 0, Tools = []\<rparr>"

definition ToolsetManifest_field ::
  "ToolsetManifest \<Rightarrow> string \<times> json \<Rightarrow> json_error + ToolsetManifest" where
  "ToolsetManifest_field r m =
     (if names (fst m) ''namespace'' then
        map_sum id (\<lambda>x. r\<lparr>Namespace := x\<rparr>) (string_value (snd m) (Namespace r))
      else if names (fst m) ''name'' then
        map_sum id (\<lambda>x. r\<lparr>ToolsetManifest.Name := x\<rparr>) (string_value (snd m) (ToolsetManifest.Name r))
      else if names (fst m) ''generation'' then
        map_sum id (\<lambda>x. r\<lparr>Generation := x\<rparr>) (int_value (snd m) (Generation r))
      else if names (fst m) ''tools'' then
        map_sum id (\<lambda>x. r\<lparr>Tools := x\<rparr>)
          (slice_value (struct_value Tool_field) Tool_zero (snd m) (Tools r))
      else Inr r)"

record manifestResponse =
  IsSuccess :: bool
  Data :: ToolsetManifest
  Error :: "string option"
  ErrorCode :: "string option"

definition manifestResponse_zero :: manifestResponse where
  "manifestResponse_zero =
     \<lparr>manifestResponse.IsSuccess = False, manifestResponse.Data = ToolsetManifest_zero,
      manifestResponse.Error = None, manifestResponse.ErrorCode = None\<rparr>"

definition manifestResponse_field ::
  "manifestResponse \<Rightarrow> string \<times> json \<Rightarrow> json_error + manifestResponse" where
  "manifestResponse_field r m =
     (if names (fst m) ''isSuccess'' then
        map_sum id (\<lambda>x. r\<lparr>manifestResponse.IsSuccess := x\<rparr>)
          (bool_value (snd m) (manifestResponse.IsSuccess r))
      else if names (fst m) ''data'' then
        map_sum id (\<lambda>x. r\<lparr>manifestResponse.Data := x\<rparr>)
          (struct_value ToolsetManifest_field (snd m) (manifestResponse.Data r))
      else if names (fst m) ''error'' then
        map_sum id (\<lambda>x. r\<lparr>manifestResponse.Error := x\<rparr>)
          (string_ptr_value (snd m) (manifestResponse.Error r))
      else if names (fst m) ''errorCode'' then
        map_sum id (\<lambda>x. r\<lparr>manifestResponse.ErrorCode := x\<rparr>)
          (string_ptr_value (snd m) (manifestResponse.ErrorCode r))
      else Inr r)"

definition manifestResponse_value ::
  "json \<Rightarrow> manifestResponse \<Rightarrow> json_error + manifestResponse" where
  "manifestResponse_value = struct_value manifestResponse_field"

text \<open>The loop that converts the tool records copies every field.\<close>

definition convert_tool :: "Tool \<Rightarrow> Tool" where
  "convert_tool t =
     \<lparr>Tool.Name = Tool.Name t, Description = Description t, InputSchema = InputSchema t,
      AllowUploadFiles = AllowUploadFiles t,
      InvokeEndpoints = \<lparr>Json = Json (InvokeEndpoints t), Form = Form (InvokeEndpoints t)\<rparr>\<rparr>"

definition get_request :: "APIClient \<Rightarrow> request" where
  "get_request c =
     \<lparr>Method = ''GET'', URL = baseURL c,
      request.Header = [(''accept'', ''application/json''), (''X-API-KEY'', apiKey c)],
      request.Body = NoBody\<rparr>"

text \<open>From \<^verbatim>\<open>io.ReadAll(resp.Body)\<close> to the end of \<^verbatim>\<open>FetchToolsetManifest\<close>.\<close>

definition read_manifest :: "response \<Rightarrow> error + ToolsetManifest" where
  "read_manifest resp =
     (case response.Body resp of
        Inl err \<Rightarrow> Inl (ReadBodyFailed err)
      | Inr body \<Rightarrow>
          if StatusCode resp \<noteq> 200 then Inl (UnexpectedStatus (StatusCode resp) body)
          else (case Unmarshal manifestResponse_value body manifestResponse_zero of
                  Inl err \<Rightarrow> Inl (UnmarshalResponseFailed err)
                | Inr r \<Rightarrow>
                    if \<not> manifestResponse.IsSuccess r then
                      Inl (APIError (case manifestResponse.Error r of
                                       None \<Rightarrow> ''unknown error'' | Some errMsg \<Rightarrow> errMsg))
                    else
                      Inr \<lparr>Namespace = Namespace (manifestResponse.Data r),
                           ToolsetManifest.Name = ToolsetManifest.Name (manifestResponse.Data r),
                           Generation = Generation (manifestResponse.Data r),
                           Tools = map convert_tool (Tools (manifestResponse.Data r))\<rparr>))"

definition FetchToolsetManifest :: "world \<Rightarrow> APIClient \<Rightarrow> event list \<times> (error + ToolsetManifest)" where
  "FetchToolsetManifest w c =
     (if \<not> valid_url w (baseURL c) then ([], Inl CreateRequestFailed)
      else
        (let req = get_request c in
         ([Sent req],
          case Do w req of
            Inl err \<Rightarrow> Inl (ExecuteRequestFailed err)
          | Inr resp \<Rightarrow> read_manifest resp)))"

section \<open>The server\<close>

subsection \<open>The MCP library\<close>

text \<open>
  Of the library \<^verbatim>\<open>mcp-go\<close> the model keeps the tool definition (\<^verbatim>\<open>mcp.Tool\<close>), the result of
  a call (\<^verbatim>\<open>mcp.CallToolResult\<close> built by \<^verbatim>\<open>NewToolResultText\<close> and \<^verbatim>\<open>NewToolResultError\<close>) and
  the table of the server, in which \<^verbatim>\<open>AddTool\<close> stores a definition and its handler under
  the name of the tool.  A handler of this program is a closure over its tool descriptor,
  so the table holds the descriptor.  A text is kept as the format the code fills and its
  arguments.
\<close>

record mcpTool =
  Name :: string
  Description :: string
  RawInputSchema :: raw

record ServerTool =
  definition_of :: mcpTool
  captured :: Tool

type_synonym MCPServer = "string \<Rightarrow> ServerTool option"

definition AddTool :: "mcpTool \<Rightarrow> Tool \<Rightarrow> MCPServer \<Rightarrow> MCPServer" where
  "AddTool t localTool srv = srv(mcpTool.Name t \<mapsto> \<lparr>definition_of = t, captured = localTool\<rparr>)"

datatype TextContent =
    FailedToMarshalArguments string
  | ToolExecutionFailed error
  | FailedToParseToolResponse json_error
  | FailedToFormatToolResponse string
  | ResponseText raw

record CallToolResult =
  Content :: "TextContent list"
  IsError :: bool

definition NewToolResultError :: "TextContent \<Rightarrow> CallToolResult" where
  "NewToolResultError t = \<lparr>CallToolResult.Content = [t], IsError = True\<rparr>"

definition NewToolResultText :: "TextContent \<Rightarrow> CallToolResult" where
  "NewToolResultText t = \<lparr>CallToolResult.Content = [t], IsError = False\<rparr>"

subsection \<open>Encoding with encoding/json\<close>

text \<open>A value that the decoder produced, a map of such values and the schema of the file
  paths can always be encoded; the entries of a map are written in key order, which is how
  a map is represented here.  The arguments of a call are any Go value: one that
  \<^verbatim>\<open>json.Marshal\<close> encodes as a document, or one that it rejects.\<close>

definition Marshal :: "json \<Rightarrow> string + raw" where
  "Marshal v = Inr (Doc v)"

definition map_json :: "gomap option \<Rightarrow> json" where
  "map_json m = (case m of None \<Rightarrow> JNull | Some entries \<Rightarrow> JObject entries)"

datatype any = Encodable json | Unencodable string

definition Marshal_any :: "any \<Rightarrow> string + raw" where
  "Marshal_any a = (case a of Encodable v \<Rightarrow> Inr (Doc v) | Unencodable err \<Rightarrow> Inl err)"

subsection \<open>registerToolHandlers\<close>

definition handler ::
  "world \<Rightarrow> APIClient \<Rightarrow> Tool \<Rightarrow> any \<Rightarrow> event list \<times> CallToolResult \<times> error option" where
  "handler w c localTool arguments =
     (case Marshal_any arguments of
        Inl err \<Rightarrow> ([], NewToolResultError (FailedToMarshalArguments err), None)
      | Inr argsJSON \<Rightarrow>
          (case ExecuteToolRequest w c localTool argsJSON of
             (evs, Inl err) \<Rightarrow> (evs, NewToolResultError (ToolExecutionFailed err), None)
           | (evs, Inr responseJSON) \<Rightarrow>
               (case Unmarshal any_value responseJSON JNull of
                  Inl err \<Rightarrow> (evs, NewToolResultError (FailedToParseToolResponse err), None)
                | Inr responseObj \<Rightarrow>
                    (case Marshal responseObj of
                       Inl err \<Rightarrow> (evs, NewToolResultError (FailedToFormatToolResponse err), None)
                     | Inr responseText \<Rightarrow> (evs, NewToolResultText (ResponseText responseText), None)))))"

text \<open>The schema between its decoding and its encoding.\<close>

definition augment_schema :: "Tool \<Rightarrow> gomap option \<Rightarrow> gomap option" where
  "augment_schema tool schema =
     (case schema of
        None \<Rightarrow> None
      | Some s0 \<Rightarrow>
          (let s1 = (if map_index s0 ''type'' = None
                     then map_store ''type'' (JString ''object'') s0 else s0)
           in if AllowUploadFiles tool then
                (let s2 = (if map_index s1 ''properties'' = None
                           then map_store ''properties'' (JObject []) s1 else s1)
                 in case map_index s2 ''properties'' of
                      Some (JObject props) \<Rightarrow>
                        Some (map_store ''properties''
                                (JObject (map_store UploadedFilePathsFieldName
                                            UploadedFilePathsSchema props)) s2)
                    | _ \<Rightarrow> Some s2)
              else Some s1))"

definition register_tool :: "MCPServer \<Rightarrow> Tool \<Rightarrow> error + MCPServer" where
  "register_tool srv localTool =
     (case Unmarshal map_value (InputSchema localTool) None of
        Inl err \<Rightarrow> Inl (ParseInputSchemaFailed (Tool.Name localTool) err)
      | Inr schema \<Rightarrow>
          (case Marshal (map_json (augment_schema localTool schema)) of
             Inl err \<Rightarrow> Inl (MarshalInputSchemaFailed (Tool.Name localTool))
           | Inr updatedSchema \<Rightarrow>
               Inr (AddTool
                      \<lparr>mcpTool.Name = Tool.Name localTool,
                       mcpTool.Description = Tool.Description localTool,
                       RawInputSchema = updatedSchema\<rparr>
                      localTool srv)))"

definition registerToolHandlers :: "Tool list \<Rightarrow> MCPServer \<Rightarrow> error + MCPServer" where
  "registerToolHandlers tools srv = foldM register_tool srv tools"

subsection \<open>NewServer\<close>

record Server =
  endpointURL :: string
  apiKey :: string
  tools :: "Tool list"
  apiClient :: APIClient
  mcpServer :: MCPServer

definition NewServer :: "world \<Rightarrow> string \<Rightarrow> string \<Rightarrow> event list \<times> (error + Server)" where
  "NewServer w url key =
     (let client = NewAPIClient url key in
      case FetchToolsetManifest w client of
        (evs, Inl err) \<Rightarrow> (evs, Inl (FetchManifestFailed err))
      | (evs, Inr manifest) \<Rightarrow>
          (case registerToolHandlers (Tools manifest) Map.empty of
             Inl err \<Rightarrow> (evs, Inl (RegisterToolHandlersFailed err))
           | Inr srv \<Rightarrow>
               (evs, Inr \<lparr>endpointURL = url, Server.apiKey = key, tools = Tools manifest,
                          apiClient = client, mcpServer = srv\<rparr>)))"

section \<open>Test doubles\<close>

text \<open>A stub endpoint that answers every request with the same response, over a given
  file system; a client, a JSON-mode tool and an upload-capable tool.  The sniffing of the
  stub has the last rule of \<^verbatim>\<open>http.DetectContentType\<close> only, the one for plain text (no byte
  of binary data among the first 512), and its fallback.\<close>

definition is_binary_byte :: "char \<Rightarrow> bool" where
  "is_binary_byte b =
     (let n = (of_char b :: nat) in n \<le> 8 \<or> n = 11 \<or> (14 \<le> n \<and> n \<le> 26) \<or> (28 \<le> n \<and> n \<le> 31))"

definition sniff_text :: "string \<Rightarrow> string" where
  "sniff_text data =
     (if list_ex is_binary_byte (take 512 data) then ''application/octet-stream''
      else ''text/plain; charset=utf-8'')"

definition stub_world :: "(string \<Rightarrow> File option) \<Rightarrow> response \<Rightarrow> world" where
  "stub_world files resp =
     \<lparr>fs = files, DetectContentType = sniff_text,
      Sprint = (\<lambda>v. ''<value>''), boundary = ''0123456789abcdef'',
      valid_url = (\<lambda>url. True), Do = (\<lambda>req. Inr resp)\<rparr>"

definition status_response :: "int \<Rightarrow> raw \<Rightarrow> response" where
  "status_response code b = \<lparr>StatusCode = code, response.Body = Inr b\<rparr>"

definition stub_client :: APIClient where
  "stub_client = NewAPIClient ''http://stub/manifest'' ''secret''"

definition json_tool :: Tool where
  "json_tool =
     \<lparr>Tool.Name = ''echo'', Description = ''echoes its arguments'',
      InputSchema = Doc (JObject [(''properties'', JObject [(''a'', JObject [(''type'', JString ''number'')])])]),
      AllowUploadFiles = False,
      InvokeEndpoints = \<lparr>Json = ''http://stub/echo'', Form = []\<rparr>\<rparr>"

definition upload_tool :: Tool where
  "upload_tool =
     \<lparr>Tool.Name = ''store'', Description = ''stores files'',
      InputSchema = Doc (JObject [(''type'', JString ''object'')]), AllowUploadFiles = True,
      InvokeEndpoints = \<lparr>Json = [], Form = ''http://stub/store''\<rparr>\<rparr>"

text \<open>The manifest of these two tools, and a manifest whose only tool record has neither
  a name nor endpoints.\<close>

definition stub_manifest :: json where
  "stub_manifest =
     JObject [(''isSuccess'', JBool True),
       (''data'', JObject
          [(''namespace'', JString ''ns''), (''name'', JString ''toolset''),
           (''generation'', JNumber ''2''),
           (''tools'', JArray
              [JObject
                 [(''name'', JString ''echo''), (''description'', JString ''echoes its arguments''),
                  (''input_schema'',
                     JObject [(''properties'', JObject [(''a'', JObject [(''type'', JString ''number'')])])]),
                  (''invoke_endpoints'', JObject [(''json'', JString ''http://stub/echo'')])],
               JObject
                 [(''name'', JString ''store''), (''description'', JString ''stores files''),
                  (''input_schema'', JObject [(''type'', JString ''object'')]),
                  (''allow_upload_files'', JBool True),
                  (''invoke_endpoints'', JObject [(''form'', JString ''http://stub/store'')])]])])]"

definition nameless_manifest :: json where
  "nameless_manifest =
     JObject [(''isSuccess'', JBool True),
       (''data'', JObject
          [(''namespace'', JString ''ns''), (''name'', JString ''toolset''),
           (''generation'', JNumber ''1''),
           (''tools'', JArray
              [JObject [(''description'', JString ''no name, no endpoints''),
                        (''input_schema'', JObject [])]])])]"

definition nameless_tool :: Tool where
  "nameless_tool =
     \<lparr>Tool.Name = [], Description = ''no name, no endpoints'', InputSchema = Doc (JObject []),
      AllowUploadFiles = False, InvokeEndpoints = \<lparr>Json = [], Form = []\<rparr>\<rparr>"

definition stub_files :: "string \<Rightarrow> File option" where
  "stub_files =
     map_of [(''./testfile.txt'', Regular ''hello''), (''/tmp/empty'', Regular []),
             (''/tmp'', Unreadable)]"

section \<open>What a sent request decides\<close>

lemma DetectMime_no_Sent: "Sent r \<notin> set (fst (DetectMime w p))"
  by (auto simp: DetectMime_def split: option.splits sum.splits prod.splits)

lemma attach_files_no_Sent: "Sent r \<notin> set (fst (attach_files w vs))"
proof (induction vs)
  case Nil
  then show ?case by simp
next
  case (Cons v vs)
  have d: "Sent r \<notin> set (fst (DetectMime w (Sprintf_v w v)))" by (rule DetectMime_no_Sent)
  show ?case using Cons d
    by (auto simp: Let_def split: option.splits sum.splits prod.splits)
qed

lemma prepare_body_no_Sent: "Sent r \<notin> set (fst (prepare_body w tool input))"
proof -
  have "Sent r \<notin> set (fst (multipart_body w input))"
  proof (cases "Unmarshal map_value input (Some [])")
    case (Inl e)
    then show ?thesis by (simp add: multipart_body_def)
  next
    case (Inr inputData)
    obtain evs opened res where a: "attach_files w (file_paths inputData) = (evs, opened, res)"
      by (cases "attach_files w (file_paths inputData)") auto
    from attach_files_no_Sent[of r w "file_paths inputData"] a have "Sent r \<notin> set evs" by simp
    with Inr a show ?thesis by (simp add: multipart_body_def)
  qed
  then show ?thesis by (simp add: prepare_body_def)
qed

lemma ExecuteToolRequest_Sent:
  assumes "Sent req \<in> set (fst (ExecuteToolRequest w c tool input))"
  shows "snd (ExecuteToolRequest w c tool input) =
           (case Do w req of Inl err \<Rightarrow> Inl (ExecuteRequestFailed err) | Inr resp \<Rightarrow> read_response resp)"
  using assms prepare_body_no_Sent[of req w tool input]
  by (auto simp: ExecuteToolRequest_def Let_def split: if_splits sum.splits prod.splits)

lemma json_tool_Sent:
  "Sent (post_request stub_client ''http://stub/echo'' (RawBody input) ''application/json'')
     \<in> set (fst (ExecuteToolRequest (stub_world files resp) stub_client json_tool input))"
  by (simp add: ExecuteToolRequest_def endpoint_of_def prepare_body_def json_tool_def stub_world_def)

lemma stub_world_Do: "Do (stub_world files resp) req = Inr resp"
  by (simp add: stub_world_def)

lemma fold_isSuccess: "foldName ''isSuccess'' = ''ISSUCCESS''" by code_simp
lemma fold_data: "foldName ''data'' = ''DATA''" by code_simp

lemma data_not_isSuccess: "names k ''data'' \<Longrightarrow> \<not> names k ''isSuccess''"
  unfolding names_def fold_isSuccess fold_data by simp

lemma map_sum_id_Inr: "map_sum id g x = Inr y \<longleftrightarrow> (\<exists>z. x = Inr z \<and> y = g z)"
  by (cases x) auto

lemma asgardResponse_field_Data:
  assumes "asgardResponse_field r0 m = Inr r1"
  shows "asgardResponse.Data r1 = (if names (fst m) ''data'' then Doc (snd m) else asgardResponse.Data r0)"
  using assms data_not_isSuccess[of "fst m"]
  by (auto simp: asgardResponse_field_def raw_value_def map_sum_id_Inr split: if_splits)

lemma foldM_asgardResponse_Data:
  "foldM asgardResponse_field r0 members = Inr r \<Longrightarrow>
   asgardResponse.Data r =
     (case filter (\<lambda>m. names (fst m) ''data'') members of
        [] \<Rightarrow> asgardResponse.Data r0
      | ds \<Rightarrow> Doc (snd (last ds)))"
proof (induction members arbitrary: r0)
  case Nil
  then show ?case by simp
next
  case (Cons m ms)
  from Cons.prems obtain r1 where
    s: "asgardResponse_field r0 m = Inr r1" and f: "foldM asgardResponse_field r1 ms = Inr r"
    by (auto split: sum.splits)
  from Cons.IH[OF f] asgardResponse_field_Data[OF s] show ?case
    by (auto split: list.splits)
qed


text \<open>
  Claim C2.  When the response of an invocation has status 200 and its body cannot be
  decoded as the envelope (isSuccess, data, error, errorCode), \<^verbatim>\<open>ExecuteToolRequest\<close> returns
  the whole body as it came, as a success: the failure of the decoding is no error.
\<close>

theorem ExecuteToolRequest_raw_passthrough:
  assumes "Sent req \<in> set (fst (ExecuteToolRequest w c tool input))"
      and "Do w req = Inr resp"
      and "StatusCode resp = 200"
      and "response.Body resp = Inr respBytes"
      and "Unmarshal asgardResponse_value respBytes asgardResponse_zero = Inl err"
  shows "snd (ExecuteToolRequest w c tool input) = Inr respBytes"
  using ExecuteToolRequest_Sent[OF assms(1)] assms(2-5) by (simp add: read_response_def)

text \<open>
  Claim C3.  When the response of an invocation has a status other than 200,
  \<^verbatim>\<open>ExecuteToolRequest\<close> fails with the error that carries the status and the body, whatever
  the body is, a successful envelope included: the status is checked before the body is
  decoded.
\<close>

theorem ExecuteToolRequest_status_failure:
  assumes "Sent req \<in> set (fst (ExecuteToolRequest w c tool input))"
      and "Do w req = Inr resp"
      and "response.Body resp = Inr respBytes"
      and "StatusCode resp \<noteq> 200"
  shows "snd (ExecuteToolRequest w c tool input) = Inl (UnexpectedStatus (StatusCode resp) respBytes)"
  using ExecuteToolRequest_Sent[OF assms(1)] assms(2-4) by (simp add: read_response_def)

text \<open>
  Claim C4, as amended.  When the response has status 200 and its body decodes as an
  envelope whose success flag is true, the body is a JSON object; if it has a member that
  names the field \<^verbatim>\<open>data\<close>, \<^verbatim>\<open>ExecuteToolRequest\<close> returns exactly the value of that member (of
  the last one), whatever the value, JSON null included; if it has no such member, it
  returns the body as it came.
\<close>

theorem ExecuteToolRequest_success_data:
  assumes "Sent req \<in> set (fst (ExecuteToolRequest w c tool input))"
      and "Do w req = Inr resp"
      and "StatusCode resp = 200"
      and "response.Body resp = Inr respBytes"
      and "Unmarshal asgardResponse_value respBytes asgardResponse_zero = Inr r"
      and "asgardResponse.IsSuccess r"
  shows "\<exists>members. respBytes = Doc (JObject members) \<and>
           snd (ExecuteToolRequest w c tool input) =
             Inr (case filter (\<lambda>m. names (fst m) ''data'') members of
                    [] \<Rightarrow> respBytes
                  | ds \<Rightarrow> Doc (snd (last ds)))"
proof -
  from assms(5,6) obtain members where b: "respBytes = Doc (JObject members)"
    and f: "foldM asgardResponse_field asgardResponse_zero members = Inr r"
    by (auto simp: Unmarshal_def asgardResponse_value_def struct_value_def asgardResponse_zero_def
             split: raw.splits json.splits)
  have d: "asgardResponse.Data r =
     (case filter (\<lambda>m. names (fst m) ''data'') members of
        [] \<Rightarrow> nil_raw | ds \<Rightarrow> Doc (snd (last ds)))"
    using foldM_asgardResponse_Data[OF f] by (simp add: asgardResponse_zero_def split: list.splits)
  have "read_response resp =
     Inr (case filter (\<lambda>m. names (fst m) ''data'') members of
                    [] \<Rightarrow> respBytes
                  | ds \<Rightarrow> Doc (snd (last ds)))"
    using assms(3-6) d by (auto simp: read_response_def nil_raw_def split: list.splits)
  with ExecuteToolRequest_Sent[OF assms(1)] assms(2) b show ?thesis by simp
qed



lemma status_response_simps:
  "StatusCode (status_response code b) = code" "response.Body (status_response code b) = Inr b"
  by (simp_all add: status_response_def)

theorem ExecuteToolRequest_raw_passthrough_witness:
  "snd (ExecuteToolRequest (stub_world stub_files (status_response 200 (Doc (JString ''plain text''))))
          stub_client json_tool (Doc (JObject [(''a'', JNumber ''1'')])))
     = Inr (Doc (JString ''plain text''))"
proof -
  have h: "Unmarshal asgardResponse_value (Doc (JString ''plain text'')) asgardResponse_zero
             = Inl UnmarshalTypeError"
    by (simp add: Unmarshal_def asgardResponse_value_def struct_value_def)
  show ?thesis
    by (rule ExecuteToolRequest_raw_passthrough[OF json_tool_Sent stub_world_Do status_response_simps h])
qed

theorem ExecuteToolRequest_status_failure_witness:
  "snd (ExecuteToolRequest
          (stub_world stub_files (status_response 500
             (Doc (JObject [(''isSuccess'', JBool True), (''data'', JObject [(''a'', JNumber ''1'')])]))))
          stub_client json_tool (Doc (JObject [(''a'', JNumber ''1'')])))
     = Inl (UnexpectedStatus 500
             (Doc (JObject [(''isSuccess'', JBool True), (''data'', JObject [(''a'', JNumber ''1'')])])))"
proof -
  have h: "StatusCode (status_response 500 b) \<noteq> 200" for b
    by (simp add: status_response_def)
  from ExecuteToolRequest_status_failure[OF json_tool_Sent stub_world_Do status_response_simps(2) h]
  show ?thesis by (simp add: status_response_simps)
qed

theorem ExecuteToolRequest_success_data_witness:
  "snd (ExecuteToolRequest
          (stub_world stub_files (status_response 200
             (Doc (JObject [(''isSuccess'', JBool True), (''data'', JObject [(''a'', JNumber ''1'')])]))))
          stub_client json_tool (Doc (JObject [(''a'', JNumber ''1'')])))
     = Inr (Doc (JObject [(''a'', JNumber ''1'')]))"
proof -
  have h: "Unmarshal asgardResponse_value
             (Doc (JObject [(''isSuccess'', JBool True), (''data'', JObject [(''a'', JNumber ''1'')])]))
             asgardResponse_zero
           = Inr \<lparr>asgardResponse.IsSuccess = True, Data = Doc (JObject [(''a'', JNumber ''1'')]),
                  Error = None, ErrorCode = None\<rparr>"
    by code_simp
  have n: "\<not> names ''isSuccess'' ''data''" "names ''data'' ''data''"
    by code_simp+
  from ExecuteToolRequest_success_data[OF json_tool_Sent stub_world_Do status_response_simps h] n
  show ?thesis by simp
qed

theorem ExecuteToolRequest_null_data_counterexample:
  "snd (ExecuteToolRequest
          (stub_world stub_files (status_response 200
             (Doc (JObject [(''isSuccess'', JBool True), (''data'', JNull)]))))
          stub_client json_tool (Doc (JObject [(''a'', JNumber ''1'')])))
     = Inr (Doc JNull)
   \<and> snd (ExecuteToolRequest
          (stub_world stub_files (status_response 200
             (Doc (JObject [(''isSuccess'', JBool True), (''data'', JNull)]))))
          stub_client json_tool (Doc (JObject [(''a'', JNumber ''1'')])))
     \<noteq> Inr (Doc (JObject [(''isSuccess'', JBool True), (''data'', JNull)]))"
proof -
  have "read_response (status_response 200 (Doc (JObject [(''isSuccess'', JBool True), (''data'', JNull)])))
          = Inr (Doc JNull)"
    by code_simp
  with ExecuteToolRequest_Sent[OF json_tool_Sent, of stub_files _ "Doc (JObject [(''a'', JNumber ''1'')])"]
  show ?thesis by (simp add: stub_world_Do)
qed



section \<open>Go maps\<close>









section \<open>Uploads\<close>











lemma stub_world_simps:
  "fs (stub_world files resp) = files"
  "DetectContentType (stub_world files resp) = sniff_text"
  "boundary (stub_world files resp) = ''0123456789abcdef''"
  "valid_url (stub_world files resp) url"
  "Do (stub_world files resp) req = Inr resp"
  by (simp_all add: stub_world_def)

lemma stub_files_simps:
  "stub_files ''./testfile.txt'' = Some (Regular ''hello'')"
  "stub_files ''/tmp/empty'' = Some (Regular [])"
  "stub_files ''/missing'' = None"
  by (simp_all add: stub_files_def)





text \<open>
  Claim C10, as amended.  For an upload-capable tool, arguments that are valid JSON but
  neither an object nor \<^verbatim>\<open>null\<close> make the invocation fail before any request is sent: with the
  error of the decoding into a map when the tool has a form endpoint.  The same arguments
  given to a tool that is not upload-capable are the body of the request sent, as they came.
\<close>

theorem ExecuteToolRequest_non_object_arguments:
  assumes "v \<noteq> JNull" and "\<forall>members. v \<noteq> JObject members"
  shows "(AllowUploadFiles tool \<longrightarrow>
            (\<exists>err. snd (ExecuteToolRequest w c tool (Doc v)) = Inl err) \<and>
            requests_sent (fst (ExecuteToolRequest w c tool (Doc v))) = [] \<and>
            (Form (InvokeEndpoints tool) \<noteq> [] \<longrightarrow>
               snd (ExecuteToolRequest w c tool (Doc v))
                 = Inl (ParseUploadedFilePathsFailed UnmarshalTypeError)))
       \<and> (\<not> AllowUploadFiles tool \<and> Json (InvokeEndpoints tool) \<noteq> [] \<and>
            valid_url w (Json (InvokeEndpoints tool)) \<longrightarrow>
            requests_sent (fst (ExecuteToolRequest w c tool (Doc v)))
              = [post_request c (Json (InvokeEndpoints tool)) (RawBody (Doc v)) ''application/json''])"
proof -
  from assms have u: "Unmarshal map_value (Doc v) (Some []) = Inl UnmarshalTypeError"
    by (cases v) (simp_all add: Unmarshal_def map_value_def)
  show ?thesis
    using u
    by (simp add: ExecuteToolRequest_def endpoint_of_def prepare_body_def multipart_body_def Let_def)
qed

theorem ExecuteToolRequest_non_object_arguments_witness:
  "snd (ExecuteToolRequest (stub_world stub_files (status_response 200 (Doc (JObject []))))
          stub_client upload_tool (Doc (JArray [JNumber ''1''])))
     = Inl (ParseUploadedFilePathsFailed UnmarshalTypeError)
   \<and> requests_sent (fst (ExecuteToolRequest (stub_world stub_files (status_response 200 (Doc (JObject []))))
          stub_client upload_tool (Doc (JArray [JNumber ''1''])))) = []
   \<and> requests_sent (fst (ExecuteToolRequest (stub_world stub_files (status_response 200 (Doc (JObject []))))
          stub_client json_tool (Doc (JArray [JNumber ''1'']))))
     = [post_request stub_client ''http://stub/echo'' (RawBody (Doc (JArray [JNumber ''1'']))) ''application/json'']"
proof -
  have a: "JArray [JNumber ''1''] \<noteq> JNull" "\<forall>members. JArray [JNumber ''1''] \<noteq> JObject members"
    by simp_all
  from ExecuteToolRequest_non_object_arguments[OF a, of upload_tool "stub_world stub_files (status_response 200 (Doc (JObject [])))" stub_client]
       ExecuteToolRequest_non_object_arguments[OF a, of json_tool "stub_world stub_files (status_response 200 (Doc (JObject [])))" stub_client]
  show ?thesis
    by (simp add: upload_tool_def json_tool_def stub_world_simps)
qed

theorem ExecuteToolRequest_null_arguments_counterexample:
  "requests_sent (fst (ExecuteToolRequest (stub_world stub_files (status_response 200 (Doc (JObject []))))
          stub_client upload_tool (Doc JNull)))
     = [post_request stub_client ''http://stub/store''
          (Multipart ''0123456789abcdef''
             [\<lparr>part.Header = [(''Content-Disposition'', ''form-data; name='' @ quoted ''json'')],
               Content = Text (Doc JNull)\<rparr>])
          ''multipart/form-data; boundary=0123456789abcdef'']"
  by (simp add: ExecuteToolRequest_def endpoint_of_def prepare_body_def multipart_body_def Let_def
        upload_tool_def stub_world_simps Unmarshal_def map_value_def file_paths_def
        WriteField_def FormDataKeyJson_def quoteEscaper_def)


section \<open>What DetectMime reads\<close>

lemma DetectMime_events:
  "fst (DetectMime w p) = (if fs w p = None then [] else [Opened p, Closed p])"
  by (auto simp: DetectMime_def split: option.splits sum.splits prod.splits)

lemma DetectMime_cannot_open: "fs w p = None \<Longrightarrow> snd (DetectMime w p) = Inl (OpenFileFailed p)"
  by (simp add: DetectMime_def)

lemma DetectMime_cannot_read:
  "fs w p = Some Unreadable \<Longrightarrow> snd (DetectMime w p) = Inl (ReadFileFailed ReadError)"
  by (simp add: DetectMime_def file_Read_def)

lemma DetectMime_regular:
  assumes "fs w p = Some (Regular bytes)" and "bytes \<noteq> []"
  shows "snd (DetectMime w p) =
           Inr (DetectContentType w (take 512 bytes @ replicate (512 - length bytes) (CHR 0x00)))"
proof -
  have "drop (min 512 (length bytes)) (replicate 512 (CHR 0x00)) = replicate (512 - length bytes) (CHR 0x00)"
    by (simp add: min_def)
  moreover have "take (min 512 (length bytes)) bytes = take 512 bytes"
    by (simp add: min_def)
  ultimately show ?thesis
    using assms by (simp add: DetectMime_def file_Read_def Let_def)
qed

text \<open>
  Claim C8, at the inputs where the code departs from it.  The claim is that \<^verbatim>\<open>DetectMime\<close>
  classifies the bytes it read, fewer than 512 for a shorter file, and fails only for a
  file that cannot be opened or read.  The code drops the count that \<^verbatim>\<open>file.Read\<close> returns and
  takes the end of the file for a failure of the reading: for an empty file it fails, and
  for the five bytes \<^verbatim>\<open>hello\<close> it classifies them followed by 507 zero bytes, which the text
  rule of the sniffing takes for binary data.  (The handle is released on every path, see
  \<open>DetectMime_events\<close>, and a file of 512 bytes or more is classified by its first 512, see
  \<open>DetectMime_regular\<close>.)
\<close>

theorem DetectMime_short_and_empty_files:
  "DetectMime (stub_world stub_files (status_response 200 (Doc JNull))) ''/tmp/empty''
     = ([Opened ''/tmp/empty'', Closed ''/tmp/empty''], Inl (ReadFileFailed EOF))
   \<and> snd (DetectMime (stub_world stub_files (status_response 200 (Doc JNull))) ''./testfile.txt'')
     = Inr (sniff_text (''hello'' @ replicate 507 (CHR 0x00)))
   \<and> sniff_text (''hello'' @ replicate 507 (CHR 0x00)) = ''application/octet-stream''
   \<and> sniff_text ''hello'' = ''text/plain; charset=utf-8''"
proof -
  have "DetectMime (stub_world stub_files (status_response 200 (Doc JNull))) ''/tmp/empty''
     = ([Opened ''/tmp/empty'', Closed ''/tmp/empty''], Inl (ReadFileFailed EOF))"
    by (simp add: DetectMime_def stub_world_simps stub_files_simps file_Read_def)
  moreover have "snd (DetectMime (stub_world stub_files (status_response 200 (Doc JNull))) ''./testfile.txt'')
     = Inr (sniff_text (''hello'' @ replicate 507 (CHR 0x00)))"
    using DetectMime_regular[of "stub_world stub_files (status_response 200 (Doc JNull))" "''./testfile.txt''" "''hello''"]
    by (simp add: stub_world_simps stub_files_simps)
  moreover have "sniff_text (''hello'' @ replicate 507 (CHR 0x00)) = ''application/octet-stream''"
    by code_simp
  moreover have "sniff_text ''hello'' = ''text/plain; charset=utf-8''"
    by code_simp
  ultimately show ?thesis by blast
qed

section \<open>The handler of a tool\<close>

text \<open>
  Claim C7.  Whatever happens on the path of a call, the handler of a tool returns a tool
  result and no error of its own: when the arguments cannot be marshalled, when the
  invocation fails for whatever reason, and when the result is not JSON, the result is an
  error result whose text names the failure and its cause.
\<close>

theorem handler_reports_failures:
  "snd (snd (handler w c localTool arguments)) = None
   \<and> (\<forall>err. Marshal_any arguments = Inl err \<longrightarrow>
         fst (snd (handler w c localTool arguments))
           = \<lparr>CallToolResult.Content = [FailedToMarshalArguments err], IsError = True\<rparr>)
   \<and> (\<forall>argsJSON err.
         Marshal_any arguments = Inr argsJSON \<and>
         snd (ExecuteToolRequest w c localTool argsJSON) = Inl err \<longrightarrow>
         fst (snd (handler w c localTool arguments))
           = \<lparr>CallToolResult.Content = [ToolExecutionFailed err], IsError = True\<rparr>)
   \<and> (\<forall>argsJSON responseJSON err.
         Marshal_any arguments = Inr argsJSON \<and>
         snd (ExecuteToolRequest w c localTool argsJSON) = Inr responseJSON \<and>
         Unmarshal any_value responseJSON JNull = Inl err \<longrightarrow>
         fst (snd (handler w c localTool arguments))
           = \<lparr>CallToolResult.Content = [FailedToParseToolResponse err], IsError = True\<rparr>)"
  by (auto simp: handler_def NewToolResultError_def NewToolResultText_def
           split: sum.splits prod.splits)


lemma json_tool_failure:
  "snd (ExecuteToolRequest (stub_world stub_files (status_response 500 (NotJson ''oops'')))
          stub_client json_tool (Doc (JObject [])))
     = Inl (UnexpectedStatus 500 (NotJson ''oops''))"
  using ExecuteToolRequest_Sent[OF json_tool_Sent, of stub_files "status_response 500 (NotJson ''oops'')" "Doc (JObject [])"]
  by (simp add: stub_world_Do read_response_def status_response_def)

lemma json_tool_plain_text:
  "snd (ExecuteToolRequest (stub_world stub_files (status_response 200 (NotJson ''plain text'')))
          stub_client json_tool (Doc (JObject [])))
     = Inr (NotJson ''plain text'')"
  using ExecuteToolRequest_Sent[OF json_tool_Sent, of stub_files "status_response 200 (NotJson ''plain text'')" "Doc (JObject [])"]
  by (simp add: stub_world_Do read_response_def status_response_def Unmarshal_def)

theorem handler_reports_failures_witness:
  "snd (handler (stub_world stub_files (status_response 500 (NotJson ''oops''))) stub_client json_tool
          (Unencodable ''unsupported type''))
     = (\<lparr>CallToolResult.Content = [FailedToMarshalArguments ''unsupported type''], IsError = True\<rparr>, None)
   \<and> snd (handler (stub_world stub_files (status_response 500 (NotJson ''oops''))) stub_client json_tool
          (Encodable (JObject [])))
     = (\<lparr>CallToolResult.Content = [ToolExecutionFailed (UnexpectedStatus 500 (NotJson ''oops''))],
         IsError = True\<rparr>, None)
   \<and> snd (handler (stub_world stub_files (status_response 200 (NotJson ''plain text''))) stub_client json_tool
          (Encodable (JObject [])))
     = (\<lparr>CallToolResult.Content = [FailedToParseToolResponse SyntaxError], IsError = True\<rparr>, None)"
proof -
  have m: "Marshal_any (Unencodable ''unsupported type'') = Inl ''unsupported type''"
          "Marshal_any (Encodable (JObject [])) = Inr (Doc (JObject []))"
    by (simp_all add: Marshal_any_def)
  have u: "Unmarshal any_value (NotJson ''plain text'') JNull = Inl SyntaxError"
    by (simp add: Unmarshal_def)
  from handler_reports_failures[of "stub_world stub_files (status_response 500 (NotJson ''oops''))" stub_client json_tool
             "Unencodable ''unsupported type''"] m
  have 1: "snd (handler (stub_world stub_files (status_response 500 (NotJson ''oops''))) stub_client json_tool
          (Unencodable ''unsupported type''))
     = (\<lparr>CallToolResult.Content = [FailedToMarshalArguments ''unsupported type''], IsError = True\<rparr>, None)"
    by (simp add: prod_eq_iff)
  from handler_reports_failures[of "stub_world stub_files (status_response 500 (NotJson ''oops''))" stub_client json_tool
             "Encodable (JObject [])"] m json_tool_failure
  have 2: "snd (handler (stub_world stub_files (status_response 500 (NotJson ''oops''))) stub_client json_tool
          (Encodable (JObject [])))
     = (\<lparr>CallToolResult.Content = [ToolExecutionFailed (UnexpectedStatus 500 (NotJson ''oops''))],
         IsError = True\<rparr>, None)"
    by (simp add: prod_eq_iff)
  from handler_reports_failures[of "stub_world stub_files (status_response 200 (NotJson ''plain text''))" stub_client json_tool
             "Encodable (JObject [])"] m json_tool_plain_text u
  have 3: "snd (handler (stub_world stub_files (status_response 200 (NotJson ''plain text''))) stub_client json_tool
          (Encodable (JObject [])))
     = (\<lparr>CallToolResult.Content = [FailedToParseToolResponse SyntaxError], IsError = True\<rparr>, None)"
    by (simp add: prod_eq_iff)
  from 1 2 3 show ?thesis by blast
qed


section \<open>Construction of the server\<close>

lemma convert_tool_id: "convert_tool t = t"
  by (simp add: convert_tool_def)

lemma map_convert_tool: "map convert_tool ts = ts"
  by (induction ts) (simp_all add: convert_tool_id)

lemma register_tool_Inr:
  assumes "Unmarshal map_value (InputSchema t) None = Inr schema"
  shows "register_tool srv t =
           Inr (srv(Tool.Name t \<mapsto>
                  \<lparr>definition_of =
                     \<lparr>mcpTool.Name = Tool.Name t, mcpTool.Description = Tool.Description t,
                      RawInputSchema = Doc (map_json (augment_schema t schema))\<rparr>,
                   captured = t\<rparr>))"
  using assms by (simp add: register_tool_def Marshal_def AddTool_def)

lemma registerToolHandlers_dom:
  assumes "\<forall>t\<in>set ts. \<exists>schema. Unmarshal map_value (InputSchema t) None = Inr schema"
  shows "\<exists>srv'. registerToolHandlers ts srv = Inr srv' \<and> dom srv' = dom srv \<union> Tool.Name ` set ts"
  using assms
proof (induction ts arbitrary: srv)
  case Nil
  then show ?case by (simp add: registerToolHandlers_def)
next
  case (Cons t ts)
  from Cons.prems obtain schema where s: "Unmarshal map_value (InputSchema t) None = Inr schema"
    by auto
  let ?srv1 = "srv(Tool.Name t \<mapsto>
                  \<lparr>definition_of =
                     \<lparr>mcpTool.Name = Tool.Name t, mcpTool.Description = Tool.Description t,
                      RawInputSchema = Doc (map_json (augment_schema t schema))\<rparr>,
                   captured = t\<rparr>)"
  from Cons.prems have p: "\<forall>t\<in>set ts. \<exists>schema. Unmarshal map_value (InputSchema t) None = Inr schema"
    by simp
  from Cons.IH[OF p, of ?srv1] obtain srv' where
    r: "registerToolHandlers ts ?srv1 = Inr srv'" and d: "dom srv' = dom ?srv1 \<union> Tool.Name ` set ts"
    by blast
  have "registerToolHandlers (t # ts) srv = Inr srv'"
    using r register_tool_Inr[OF s, of srv] by (simp add: registerToolHandlers_def)
  with d show ?case by auto
qed

lemma handler_no_endpoint:
  assumes "endpoint_of t = []" and "Marshal_any arguments = Inr v"
  shows "handler w c t arguments =
           ([], NewToolResultError (ToolExecutionFailed (NoInvokeEndpoint (Tool.Name t))), None)"
  using assms by (simp add: handler_def ExecuteToolRequest_def)

text \<open>
  Claim C1, as amended.  A tool record without a name or without an invocation target does
  not make the construction of the server fail.  \<^verbatim>\<open>FetchToolsetManifest\<close> returns the tool
  records of every manifest that has status 200, decodes and has the success flag set, as
  they were decoded, a missing string being empty; \<^verbatim>\<open>NewServer\<close> succeeds whenever the fetch
  does and the input schema of every tool can be decoded, and registers every tool under
  its name.  The missing target is found when the tool is called: the handler reports that
  the tool has no endpoint to invoke, and nothing is sent.
\<close>

theorem NewServer_accepts_missing_target:
  "(valid_url w (baseURL c) \<and> Do w (get_request c) = Inr resp \<and> response.Body resp = Inr body \<and>
      StatusCode resp = 200 \<and>
      Unmarshal manifestResponse_value body manifestResponse_zero = Inr r \<and>
      manifestResponse.IsSuccess r \<longrightarrow>
      (\<exists>m. snd (FetchToolsetManifest w c) = Inr m \<and> Tools m = Tools (manifestResponse.Data r)))
   \<and> (snd (FetchToolsetManifest w (NewAPIClient url key)) = Inr manifest \<and>
      (\<forall>t\<in>set (Tools manifest). \<exists>schema. Unmarshal map_value (InputSchema t) None = Inr schema) \<longrightarrow>
      (\<exists>s. snd (NewServer w url key) = Inr s \<and> tools s = Tools manifest \<and>
           apiClient s = NewAPIClient url key \<and>
           (\<forall>t\<in>set (Tools manifest).
              (\<exists>entry. mcpServer s (Tool.Name t) = Some entry) \<and>
              (endpoint_of t = [] \<longrightarrow>
                 (\<forall>arguments v. Marshal_any arguments = Inr v \<longrightarrow>
                    handler w (apiClient s) t arguments =
                      ([], NewToolResultError (ToolExecutionFailed (NoInvokeEndpoint (Tool.Name t))),
                       None))))))"
proof (intro conjI impI)
  assume a: "valid_url w (baseURL c) \<and> Do w (get_request c) = Inr resp \<and> response.Body resp = Inr body \<and>
      StatusCode resp = 200 \<and>
      Unmarshal manifestResponse_value body manifestResponse_zero = Inr r \<and>
      manifestResponse.IsSuccess r"
  then show "\<exists>m. snd (FetchToolsetManifest w c) = Inr m \<and> Tools m = Tools (manifestResponse.Data r)"
    by (simp add: FetchToolsetManifest_def Let_def read_manifest_def map_convert_tool)
next
  assume a: "snd (FetchToolsetManifest w (NewAPIClient url key)) = Inr manifest \<and>
      (\<forall>t\<in>set (Tools manifest). \<exists>schema. Unmarshal map_value (InputSchema t) None = Inr schema)"
  then obtain evs where f: "FetchToolsetManifest w (NewAPIClient url key) = (evs, Inr manifest)"
    by (cases "FetchToolsetManifest w (NewAPIClient url key)") auto
  from a registerToolHandlers_dom[of "Tools manifest" Map.empty] obtain srv where
    r: "registerToolHandlers (Tools manifest) Map.empty = Inr srv" and
    d: "dom srv = Tool.Name ` set (Tools manifest)"
    by auto
  let ?s = "\<lparr>endpointURL = url, Server.apiKey = key, tools = Tools manifest,
             apiClient = NewAPIClient url key, mcpServer = srv\<rparr>"
  have n: "snd (NewServer w url key) = Inr ?s"
    using f r by (simp add: NewServer_def Let_def)
  have "\<forall>t\<in>set (Tools manifest). \<exists>entry. srv (Tool.Name t) = Some entry"
    using d by (auto simp: dom_def)
  with n handler_no_endpoint show "\<exists>s. snd (NewServer w url key) = Inr s \<and> tools s = Tools manifest \<and>
           apiClient s = NewAPIClient url key \<and>
           (\<forall>t\<in>set (Tools manifest).
              (\<exists>entry. mcpServer s (Tool.Name t) = Some entry) \<and>
              (endpoint_of t = [] \<longrightarrow>
                 (\<forall>arguments v. Marshal_any arguments = Inr v \<longrightarrow>
                    handler w (apiClient s) t arguments =
                      ([], NewToolResultError (ToolExecutionFailed (NoInvokeEndpoint (Tool.Name t))),
                       None))))"
    by (intro exI[of _ ?s]) simp
qed


lemma nameless_decoded:
  "Unmarshal manifestResponse_value (Doc nameless_manifest) manifestResponse_zero
     = Inr \<lparr>manifestResponse.IsSuccess = True,
            manifestResponse.Data =
              \<lparr>Namespace = ''ns'', ToolsetManifest.Name = ''toolset'', Generation = 1,
               Tools = [nameless_tool]\<rparr>,
            manifestResponse.Error = None, manifestResponse.ErrorCode = None\<rparr>"
  by code_simp

lemma stub_manifest_decoded:
  "Unmarshal manifestResponse_value (Doc stub_manifest) manifestResponse_zero
     = Inr \<lparr>manifestResponse.IsSuccess = True,
            manifestResponse.Data =
              \<lparr>Namespace = ''ns'', ToolsetManifest.Name = ''toolset'', Generation = 2,
               Tools = [json_tool, upload_tool]\<rparr>,
            manifestResponse.Error = None, manifestResponse.ErrorCode = None\<rparr>"
  by code_simp

lemma nameless_fetched:
  "snd (FetchToolsetManifest (stub_world stub_files (status_response 200 (Doc nameless_manifest)))
          (NewAPIClient ''http://stub/manifest'' ''secret''))
     = Inr \<lparr>Namespace = ''ns'', ToolsetManifest.Name = ''toolset'', Generation = 1,
            Tools = [nameless_tool]\<rparr>"
  by (simp add: FetchToolsetManifest_def Let_def read_manifest_def stub_world_simps
        status_response_simps nameless_decoded convert_tool_id)

theorem NewServer_nameless_tool_counterexample:
  "snd (FetchToolsetManifest (stub_world stub_files (status_response 200 (Doc nameless_manifest)))
          stub_client)
     = Inr \<lparr>Namespace = ''ns'', ToolsetManifest.Name = ''toolset'', Generation = 1,
            Tools = [nameless_tool]\<rparr>
   \<and> map_sum id (\<lambda>s. (tools s, mcpServer s []))
        (snd (NewServer (stub_world stub_files (status_response 200 (Doc nameless_manifest)))
                ''http://stub/manifest'' ''secret''))
     = Inr ([nameless_tool],
            Some \<lparr>definition_of =
                    \<lparr>mcpTool.Name = [], mcpTool.Description = ''no name, no endpoints'',
                     RawInputSchema = Doc (JObject [(''type'', JString ''object'')])\<rparr>,
                  captured = nameless_tool\<rparr>)
   \<and> handler (stub_world stub_files (status_response 200 (Doc nameless_manifest))) stub_client
        nameless_tool (Encodable (JObject []))
     = ([], \<lparr>CallToolResult.Content = [ToolExecutionFailed (NoInvokeEndpoint [])], IsError = True\<rparr>,
        None)"
  by code_simp

theorem NewServer_accepts_missing_target_witness:
  "(\<exists>m. snd (FetchToolsetManifest (stub_world stub_files (status_response 200 (Doc nameless_manifest)))
               stub_client) = Inr m \<and> Tools m = [nameless_tool])
   \<and> (\<exists>s. snd (NewServer (stub_world stub_files (status_response 200 (Doc nameless_manifest)))
                ''http://stub/manifest'' ''secret'') = Inr s
          \<and> tools s = [nameless_tool]
          \<and> (\<exists>entry. mcpServer s [] = Some entry)
          \<and> handler (stub_world stub_files (status_response 200 (Doc nameless_manifest)))
               (apiClient s) nameless_tool (Encodable (JObject []))
             = ([], NewToolResultError (ToolExecutionFailed (NoInvokeEndpoint [])), None))"
proof -
  let ?w = "stub_world stub_files (status_response 200 (Doc nameless_manifest))"
  let ?m = "\<lparr>Namespace = ''ns'', ToolsetManifest.Name = ''toolset'', Generation = 1,
            Tools = [nameless_tool]\<rparr>"
  have 1: "valid_url ?w (baseURL stub_client) \<and>
           Do ?w (get_request stub_client) = Inr (status_response 200 (Doc nameless_manifest)) \<and>
           response.Body (status_response 200 (Doc nameless_manifest)) = Inr (Doc nameless_manifest) \<and>
           StatusCode (status_response 200 (Doc nameless_manifest)) = 200 \<and>
           Unmarshal manifestResponse_value (Doc nameless_manifest) manifestResponse_zero
             = Inr \<lparr>manifestResponse.IsSuccess = True, manifestResponse.Data = ?m,
                    manifestResponse.Error = None, manifestResponse.ErrorCode = None\<rparr> \<and>
           manifestResponse.IsSuccess
             \<lparr>manifestResponse.IsSuccess = True, manifestResponse.Data = ?m,
              manifestResponse.Error = None, manifestResponse.ErrorCode = None\<rparr>"
    by (simp add: stub_world_simps status_response_simps nameless_decoded)
  have s: "Unmarshal map_value (InputSchema nameless_tool) None = Inr (Some [])"
    by (simp add: nameless_tool_def Unmarshal_def map_value_def map_entries_def)
  have 2: "snd (FetchToolsetManifest ?w (NewAPIClient ''http://stub/manifest'' ''secret'')) = Inr ?m \<and>
           (\<forall>t\<in>set (Tools ?m). \<exists>schema. Unmarshal map_value (InputSchema t) None = Inr schema)"
    using s by (simp add: nameless_fetched)
  have e: "endpoint_of nameless_tool = []" "Tool.Name nameless_tool = []"
    by (simp_all add: endpoint_of_def nameless_tool_def)
  have m: "Marshal_any (Encodable (JObject [])) = Inr (Doc (JObject []))"
    by (simp add: Marshal_any_def)
  note c = NewServer_accepts_missing_target[of ?w stub_client "status_response 200 (Doc nameless_manifest)" "Doc nameless_manifest"
              "\<lparr>manifestResponse.IsSuccess = True, manifestResponse.Data = ?m,
                manifestResponse.Error = None, manifestResponse.ErrorCode = None\<rparr>"
              "''http://stub/manifest''" "''secret''" ?m]
  from c 1 have A: "\<exists>m. snd (FetchToolsetManifest ?w stub_client) = Inr m \<and> Tools m = [nameless_tool]"
    by simp
  from c 2 obtain s where
    n: "snd (NewServer ?w ''http://stub/manifest'' ''secret'') = Inr s" and t: "tools s = [nameless_tool]" and
    h: "\<forall>t\<in>set [nameless_tool].
              (\<exists>entry. mcpServer s (Tool.Name t) = Some entry) \<and>
              (endpoint_of t = [] \<longrightarrow>
                 (\<forall>arguments v. Marshal_any arguments = Inr v \<longrightarrow>
                    handler ?w (apiClient s) t arguments =
                      ([], NewToolResultError (ToolExecutionFailed (NoInvokeEndpoint (Tool.Name t))),
                       None)))"
    by auto
  from h e m have "(\<exists>entry. mcpServer s [] = Some entry)
          \<and> handler ?w (apiClient s) nameless_tool (Encodable (JObject []))
             = ([], NewToolResultError (ToolExecutionFailed (NoInvokeEndpoint [])), None)"
    by simp
  with n t A show ?thesis by blast
qed


section \<open>Registration of the tools\<close>

lemma keys_insort_key:
  "fst ` set (insort_key fst e xs) = insert (fst e) (fst ` set xs)"
  by (simp add: set_insort_key)









lemma type_not_properties: "''type'' \<noteq> ''properties''" by simp












end
